theory Spec2Isabelle
  imports Main "HOL-Library.Sublist"
begin

section \<open>Theme accessor\<close>

text \<open>
  The hook \<open>useTheme\<close> and its helper \<open>invertMode\<close>, as printed in the theming guide:
  \<^verbatim>\<open>
  const invertMode = (mode) => (mode === 'light' ? 'dark' : 'light');

  const useTheme = () => {
    const context = useContext(ThemeContext);
    if (!context) {
      const defaultMode = 'light';
      const defaultTheme = DefaultTheme;
      const colors = defaultTheme.schemes?.[defaultMode];
      const invertedColors = defaultTheme.schemes?.[invertMode(defaultMode)];
      return { theme: defaultTheme, mode: defaultMode, colors, invertedColors,
               setMode: () => {}, setTheme: () => {} };
    }
    return context;
  };
  \<close>
  A mode is a JavaScript string. A theme is an object of which the hook reads the field
  \<open>schemes\<close> only: a dictionary from mode names to colour sets, possibly missing
  (\<open>None\<close> stands for \<open>undefined\<close>). The colour sets are opaque here (type \<open>'c\<close>).
  The module \<open>DefaultTheme\<close> is imported by the hook and is a parameter of the model.
  The ambient context is \<open>None\<close> when no provider is mounted. The two setters change
  the provider's state (type \<open>'s\<close>), so they are state transformers; \<open>() => {}\<close>
  leaves every state as it is.
\<close>

type_synonym mode = string

record 'c Theme =
  schemes :: "(mode \<rightharpoonup> 'c) option"

record ('c, 's) theme_context =
  theme :: "'c Theme"
  mode :: mode
  colors :: "'c option"
  invertedColors :: "'c option"
  setMode :: "mode \<Rightarrow> 's \<Rightarrow> 's"
  setTheme :: "'c Theme \<Rightarrow> 's \<Rightarrow> 's"

definition invertMode :: "mode \<Rightarrow> mode" where
  "invertMode m = (if m = ''light'' then ''dark'' else ''light'')"

text \<open>The expression \<open>theme.schemes?.[m]\<close>: \<open>undefined\<close> when \<open>schemes\<close> is missing
  or has no entry for \<open>m\<close>.\<close>

definition scheme_of :: "'c Theme \<Rightarrow> mode \<Rightarrow> 'c option" where
  "scheme_of th m = (case schemes th of None \<Rightarrow> None | Some ss \<Rightarrow> ss m)"

definition useTheme ::
  "'c Theme \<Rightarrow> ('c, 's) theme_context option \<Rightarrow> ('c, 's) theme_context" where
  "useTheme DefaultTheme context =
     (case context of
        None \<Rightarrow>
          (let defaultMode = ''light'';
               defaultTheme = DefaultTheme;
               colors' = scheme_of defaultTheme defaultMode;
               invertedColors' = scheme_of defaultTheme (invertMode defaultMode)
           in \<lparr>theme = defaultTheme, mode = defaultMode,
                colors = colors', invertedColors = invertedColors',
                setMode = (\<lambda>_ s. s), setTheme = (\<lambda>_ s. s)\<rparr>)
      | Some c \<Rightarrow> c)"

section \<open>Override registry and resolver\<close>

text \<open>
  The Override Registry maps a component name to an Override Entry
  \<open>{ styleOverrides?, classNames?, variantOverrides?, configOverrides? }\<close>, every
  field optional (\<open>None\<close> stands for \<open>undefined\<close>). A style object is a dictionary
  from CSS property names to values. Of the nested configuration the sources read
  \<open>optionConfig\<close> with its two item lists \<open>surfaceItems\<close> and \<open>menuItems\<close>.
\<close>

type_synonym style = "string \<rightharpoonup> string"

record option_config =
  surfaceItems :: "string list option"
  menuItems :: "string list option"

record config_overrides =
  optionConfig :: "option_config option"

record overrides =
  styleOverrides :: "style option"
  classNames :: "string list option"
  variantOverrides :: "string option"
  configOverrides :: "config_overrides option"

type_synonym registry = "string \<rightharpoonup> overrides"

text \<open>
  Modelled from the spec: the Override Resolver \<open>useComponentOverrides\<close>, whose module
  (\<open>hooks/useComponentOverrides\<close>) is not among the sources; only its call sites are.
  The spec's resolution algorithm: look the component name up in the registry and, if it
  is absent, treat every field as empty; return the entry's raw style object (the
  resolver does not merge it with the call site's style), the entry's class list, the
  entry's variant tag (the component-specific default is applied by the consuming
  component) and the entry's nested configuration object, or \<open>undefined\<close>. The call
  site's class name and style are optional arguments.
\<close>

definition useComponentOverrides ::
  "registry \<Rightarrow> string \<Rightarrow> string option \<Rightarrow> style option \<Rightarrow> overrides" where
  "useComponentOverrides registry componentName className style =
     (let entry = registry componentName
      in \<lparr>styleOverrides = Option.bind entry styleOverrides,
           classNames = Option.bind entry classNames,
           variantOverrides = Option.bind entry variantOverrides,
           configOverrides = Option.bind entry configOverrides\<rparr>)"

section \<open>MessageToolbox: configuration overrides\<close>

text \<open>
  The toolbox's use of the resolved configuration, as printed in the theming guide:
  \<^verbatim>\<open>
  const { styleOverrides, classNames, configOverrides } = useComponentOverrides(
    'MessageToolbox', className, style);
  const surfaceItems = configOverrides.optionConfig?.surfaceItems || optionConfig.surfaceItems;
  const menuItems = configOverrides.optionConfig?.menuItems || optionConfig.menuItems;
  const menuOptions = menuItems
    ?.map((item) => options[item]?.visible ? {
      id: options[item].id, action: options[item].onClick,
      label: options[item].label, icon: options[item].iconName,
    } : null)
    .filter((option) => option !== null);
  {menuOptions?.length > 0 && (<Menu size="small" options={menuOptions} ... />)}
  \<close>
  Reading a property of \<open>undefined\<close> throws a \<open>TypeError\<close>, so \<open>configOverrides.optionConfig\<close>
  fails when \<open>configOverrides\<close> is \<open>undefined\<close>; the optional chain \<open>?.\<close> after it
  gives \<open>undefined\<close> instead. The component's own \<open>optionConfig\<close> and its table
  \<open>options\<close> are not in the sources and are parameters of the model. An entry of the
  table has the fields read above; its click handler is opaque (type \<open>'h\<close>).
\<close>

datatype error = TypeError

text \<open>The operator \<open>a || b\<close> on operands that are an array or \<open>undefined\<close>: every
  array, the empty one too, is truthy, so \<open>b\<close> is taken exactly when \<open>a\<close> is
  \<open>undefined\<close>.\<close>

definition or_else :: "'a option \<Rightarrow> 'a option \<Rightarrow> 'a option" where
  "or_else a b = (case a of Some x \<Rightarrow> Some x | None \<Rightarrow> b)"


definition toolbox_menuItems ::
  "config_overrides option \<Rightarrow> option_config \<Rightarrow> error + string list option" where
  "toolbox_menuItems configOverrides' builtin =
     (case configOverrides' of
        None \<Rightarrow> Inl TypeError
      | Some co \<Rightarrow>
          Inr (or_else (Option.bind (optionConfig co) menuItems) (menuItems builtin)))"

record 'h option_entry =
  id' :: string
  onClick :: 'h
  label :: string
  iconName :: string
  visible :: bool

text \<open>A menu option \<open>{ id, action, label, icon }\<close>; the fields \<open>id\<close> and \<open>label\<close>
  carry the prefix \<open>menu_\<close> here, since a table entry has fields of the same names.\<close>

record 'h menu_option =
  menu_id :: string
  action :: 'h
  menu_label :: string
  icon :: string

text \<open>The list after \<open>map\<close> holds an object or \<open>null\<close> (\<open>None\<close>) per item; \<open>filter\<close>
  drops the \<open>null\<close>s. \<open>menuItems?.map\<close> is \<open>undefined\<close> when there is no item list.\<close>

definition menuOptions ::
  "(string \<rightharpoonup> 'h option_entry) \<Rightarrow> string list option \<Rightarrow> 'h menu_option option list option" where
  "menuOptions options menuItems' =
     map_option
       (\<lambda>items.
          filter (\<lambda>option. option \<noteq> None)
            (map (\<lambda>item.
                    case options item of
                      None \<Rightarrow> None
                    | Some e \<Rightarrow>
                        if visible e
                        then Some \<lparr>menu_id = id' e, action = onClick e,
                                   menu_label = label e, icon = iconName e\<rparr>
                        else None)
               items))
       menuItems'"

text \<open>The options handed to the rendered \<open>Menu\<close>, or \<open>None\<close> when no menu is rendered
  (\<open>menuOptions?.length > 0\<close> fails), or the error thrown on the way.\<close>

definition MessageToolbox_menu ::
  "registry \<Rightarrow> (string \<rightharpoonup> 'h option_entry) \<Rightarrow> option_config \<Rightarrow> string option \<Rightarrow> style option
     \<Rightarrow> error + 'h menu_option option list option" where
  "MessageToolbox_menu registry options builtin className style =
     (let configOverrides' =
            configOverrides (useComponentOverrides registry ''MessageToolbox'' className style)
      in case toolbox_menuItems configOverrides' builtin of
           Inl e \<Rightarrow> Inl e
         | Inr menuItems' \<Rightarrow>
             Inr (case menuOptions options menuItems' of
                    None \<Rightarrow> None
                  | Some os \<Rightarrow> if length os > 0 then Some os else None))"

section \<open>MessageHeader: variant overrides\<close>

text \<open>
  \<^verbatim>\<open>
  const { styleOverrides, classNames, variantOverrides } =
    useComponentOverrides('MessageHeader');
  const displayNameVariant = variantOverrides || 'Normal';
  \<close>
  A variant tag is a string or \<open>undefined\<close>; the empty string is the one falsy string.
\<close>

definition displayNameVariant :: "string option \<Rightarrow> string" where
  "displayNameVariant variantOverrides' =
     (case variantOverrides' of
        None \<Rightarrow> ''Normal''
      | Some v \<Rightarrow> if v = [] then ''Normal'' else v)"

definition MessageHeader_displayNameVariant :: "registry \<Rightarrow> string" where
  "MessageHeader_displayNameVariant registry =
     displayNameVariant (variantOverrides (useComponentOverrides registry ''MessageHeader'' None None))"

section \<open>The Message component\<close>

text \<open>
  \<^verbatim>\<open>
  const Message = ({ message, sequential = false, lastSequential = false,
                     newDay = false, variantOverrides = "default" }) => {
    const isMe = message.u.username === "spiral_memory";
    const styles = useMessageStyles();
    const bubbleStyles = useBubbleStyles(isMe);
    const shouldShowHeader = !sequential;
    const variantStyles = variantOverrides === "bubble" ? bubbleStyles : {};
    return (<>
      <Box className="ec-message" css={[variantStyles.messageParent || styles.main]}>
        <MessageAvatarContainer message={message} sequential={sequential} />
        <MessageBodyContainer variantStyles={variantStyles}>
          {shouldShowHeader && (
            <MessageHeader message={message}
              {...(variantStyles?.name?.includes("bubble") && { showDisplayName: !isMe })} />)}
          {!message.t ? (<MessageBody ... variantStyles={variantStyles} ...> ... </MessageBody>) : null}
        </MessageBodyContainer>
      </Box>
      {newDay && (<MessageDivider>...</MessageDivider>)}
    </>);
  };
  \<close>
  A prop that the call site leaves out is \<open>undefined\<close> (\<open>None\<close>), and a default
  parameter replaces \<open>undefined\<close> only. The hooks \<open>useMessageStyles\<close> and
  \<open>useBubbleStyles\<close> are not in the sources: the style sheet and the function from
  \<open>isMe\<close> to the bubble styles are parameters. Style values are opaque (type \<open>'css\<close>)
  and, being objects, truthy. Of a variant style object the component reads \<open>name\<close> and
  \<open>messageParent\<close>; the empty object \<open>{}\<close> has neither. The rendered tree is recorded
  as far as the component decides it: the style of the outer box, the variant styles
  handed to the children, the header's props (\<open>None\<close>: no header), whether the body and
  the day divider are there. A header prop that is not passed is \<open>None\<close>.
\<close>

record user =
  username :: string

record message =
  u :: user
  t :: "string option"

record 'css message_styles =
  main :: 'css

record 'css variant_styles =
  name :: "string option"
  messageParent :: "'css option"

record header_props =
  header_message :: message
  showDisplayName :: "bool option"

record 'css message_view =
  box_css :: 'css
  variantStyles :: "'css variant_styles"
  header :: "header_props option"
  body :: bool
  divider :: bool

definition isMe :: "message \<Rightarrow> bool" where
  "isMe msg = (username (u msg) = ''spiral_memory'')"

text \<open>The default parameter \<open>variantOverrides = "default"\<close>.\<close>

definition Message_variantOverrides :: "string option \<Rightarrow> string" where
  "Message_variantOverrides prop = (case prop of None \<Rightarrow> ''default'' | Some v \<Rightarrow> v)"

definition Message ::
  "'css message_styles \<Rightarrow> (bool \<Rightarrow> 'css variant_styles) \<Rightarrow> message \<Rightarrow> bool option \<Rightarrow> bool option
     \<Rightarrow> bool option \<Rightarrow> string option \<Rightarrow> 'css message_view" where
  "Message useMessageStyles useBubbleStyles msg sequential lastSequential newDay variantOverrides' =
     (let sequential' = (case sequential of None \<Rightarrow> False | Some b \<Rightarrow> b);
          newDay' = (case newDay of None \<Rightarrow> False | Some b \<Rightarrow> b);
          variantOverrides'' = Message_variantOverrides variantOverrides';
          styles = useMessageStyles;
          bubbleStyles = useBubbleStyles (isMe msg);
          shouldShowHeader = (\<not> sequential');
          variantStyles' =
            (if variantOverrides'' = ''bubble'' then bubbleStyles
             else \<lparr>name = None, messageParent = None\<rparr>)
      in \<lparr>box_css = (case messageParent variantStyles' of Some c \<Rightarrow> c | None \<Rightarrow> main styles),
           variantStyles = variantStyles',
           header =
             (if shouldShowHeader
              then Some \<lparr>header_message = msg,
                         showDisplayName =
                           (case name variantStyles' of
                              None \<Rightarrow> None
                            | Some n \<Rightarrow> if sublist ''bubble'' n then Some (\<not> isMe msg) else None)\<rparr>
              else None),
           body = (case t msg of None \<Rightarrow> True | Some ty \<Rightarrow> ty = []),
           divider = newDay'\<rparr>)"

section \<open>Properties of the theme accessor\<close>

text \<open>
  Claim C5. \<open>invertMode\<close> sends \<open>light\<close> to \<open>dark\<close> and \<open>dark\<close> to \<open>light\<close>, so on
  the two-element set of modes it is its own inverse. (It is a total function of any
  string; the model is one too.)
\<close>

theorem invertMode_involution:
  "invertMode ''light'' = ''dark'' \<and> invertMode ''dark'' = ''light'' \<and>
   (\<forall>m \<in> {''light'', ''dark''}. invertMode (invertMode m) = m)"
  by (simp add: invertMode_def)

theorem invertMode_involution_witness:
  "''dark'' \<in> {''light'', ''dark''} \<and> invertMode (invertMode ''dark'') = ''dark''"
  using invertMode_involution by simp

text \<open>
  Claim C3. Without a theme context, \<open>useTheme\<close> returns the built-in default theme,
  the mode \<open>light\<close>, as \<open>colors\<close> the entry that the default theme's \<open>schemes\<close>
  holds under \<open>light\<close>, as \<open>invertedColors\<close> the entry it holds under \<open>dark\<close>
  (each undefined when \<open>schemes\<close> or the entry is missing), and two setters that change
  nothing.
\<close>

theorem useTheme_without_context:
  "theme (useTheme D None) = D \<and>
   mode (useTheme D None) = ''light'' \<and>
   colors (useTheme D None) = (case schemes D of None \<Rightarrow> None | Some ss \<Rightarrow> ss ''light'') \<and>
   invertedColors (useTheme D None) = (case schemes D of None \<Rightarrow> None | Some ss \<Rightarrow> ss ''dark'') \<and>
   (\<forall>m s. setMode (useTheme D None) m s = s) \<and>
   (\<forall>th s. setTheme (useTheme D None) th s = s)"
  by (simp add: useTheme_def scheme_of_def invertMode_def Let_def)

theorem useTheme_without_context_witness:
  "mode (useTheme \<lparr>schemes = Some [''light'' \<mapsto> ''L0'', ''dark'' \<mapsto> ''D0'']\<rparr> None) = ''light'' \<and>
   colors (useTheme \<lparr>schemes = Some [''light'' \<mapsto> ''L0'', ''dark'' \<mapsto> ''D0'']\<rparr> None)
     = Some ''L0'' \<and>
   invertedColors (useTheme \<lparr>schemes = Some [''light'' \<mapsto> ''L0'', ''dark'' \<mapsto> ''D0'']\<rparr> None)
     = Some ''D0'' \<and>
   colors (useTheme \<lparr>schemes = (None :: (mode \<rightharpoonup> string) option)\<rparr> None) = None \<and>
   invertedColors (useTheme \<lparr>schemes = Some [''light'' \<mapsto> ''L0'']\<rparr> None) = None"
  by (simp add: useTheme_without_context)

text \<open>
  Claim C4. With a theme context, \<open>useTheme\<close> returns that context as it is, whatever
  the default theme. In particular, when the context is in light mode, carries as
  \<open>invertedColors\<close> the inverted-mode scheme of its own theme, and that theme has no dark
  scheme, the returned \<open>invertedColors\<close> is undefined: the default theme is not consulted
  and nothing fails.
\<close>

theorem useTheme_with_context:
  "useTheme D (Some ctx) = ctx \<and>
   (mode ctx = ''light'' \<and>
    invertedColors ctx = scheme_of (theme ctx) (invertMode (mode ctx)) \<and>
    scheme_of (theme ctx) ''dark'' = None
    \<longrightarrow> invertedColors (useTheme D (Some ctx)) = None)"
  by (simp add: useTheme_def invertMode_def Let_def)

theorem useTheme_with_context_witness:
  "useTheme \<lparr>schemes = Some [''light'' \<mapsto> ''L0'', ''dark'' \<mapsto> ''D0'']\<rparr>
     (Some \<lparr>theme = \<lparr>schemes = Some [''light'' \<mapsto> ''L1'']\<rparr>, mode = ''light'',
            colors = Some ''L1'', invertedColors = None,
            setMode = (\<lambda>m s. m), setTheme = (\<lambda>th (s::string). s)\<rparr>)
   = \<lparr>theme = \<lparr>schemes = Some [''light'' \<mapsto> ''L1'']\<rparr>, mode = ''light'',
      colors = Some ''L1'', invertedColors = None,
      setMode = (\<lambda>m s. m), setTheme = (\<lambda>th (s::string). s)\<rparr> \<and>
   scheme_of \<lparr>schemes = Some [''light'' \<mapsto> (''L1''::string)]\<rparr> ''dark'' = None \<and>
   scheme_of \<lparr>schemes = Some [''light'' \<mapsto> ''L0'', ''dark'' \<mapsto> ''D0'']\<rparr> ''dark'' = Some ''D0'' \<and>
   invertedColors
     (useTheme \<lparr>schemes = Some [''light'' \<mapsto> ''L0'', ''dark'' \<mapsto> ''D0'']\<rparr>
        (Some \<lparr>theme = \<lparr>schemes = Some [''light'' \<mapsto> ''L1'']\<rparr>, mode = ''light'',
               colors = Some ''L1'', invertedColors = None,
               setMode = (\<lambda>m s. m), setTheme = (\<lambda>th (s::string). s)\<rparr>)) = None"
  using useTheme_with_context
    [of "\<lparr>schemes = Some [''light'' \<mapsto> ''L0'', ''dark'' \<mapsto> ''D0'']\<rparr>"
        "\<lparr>theme = \<lparr>schemes = Some [''light'' \<mapsto> ''L1'']\<rparr>, mode = ''light'',
          colors = Some ''L1'', invertedColors = None,
          setMode = (\<lambda>m s. m), setTheme = (\<lambda>th (s::string). s)\<rparr>"]
  by (simp add: scheme_of_def invertMode_def)

section \<open>Properties of the override resolver\<close>

text \<open>
  Claim C1. The Override Resolver is total over component names, and for a name with no
  entry in the Override Registry every field of its result (\<open>styleOverrides\<close>,
  \<open>classNames\<close>, \<open>variantOverrides\<close>, \<open>configOverrides\<close>) is undefined; a missing
  entry gives the same result as an entry all of whose fields are empty. The resolver is
  a total function with no error value, so it cannot throw.
\<close>

theorem resolver_unknown_name:
  "registry componentName = None \<Longrightarrow>
     useComponentOverrides registry componentName className style =
       \<lparr>styleOverrides = None, classNames = None, variantOverrides = None,
        configOverrides = None\<rparr> \<and>
     useComponentOverrides registry componentName className style =
       useComponentOverrides
         (registry(componentName \<mapsto>
            \<lparr>styleOverrides = None, classNames = None, variantOverrides = None,
             configOverrides = None\<rparr>))
         componentName className style"
  by (simp add: useComponentOverrides_def)

theorem resolver_unknown_name_witness:
  "[''Message'' \<mapsto> \<lparr>styleOverrides = None, classNames = Some [''x''],
                     variantOverrides = Some ''bubble'', configOverrides = None\<rparr>] ''Avatar''
     = None \<and>
   useComponentOverrides
     [''Message'' \<mapsto> \<lparr>styleOverrides = None, classNames = Some [''x''],
                       variantOverrides = Some ''bubble'', configOverrides = None\<rparr>]
     ''Avatar'' (Some ''mine'') None
     = \<lparr>styleOverrides = None, classNames = None, variantOverrides = None,
        configOverrides = None\<rparr>"
  using resolver_unknown_name
    [of "[''Message'' \<mapsto> \<lparr>styleOverrides = None, classNames = Some [''x''],
                           variantOverrides = Some ''bubble'', configOverrides = None\<rparr>]"
        "''Avatar''" "Some ''mine''" None]
  by simp

section \<open>Properties of the consuming components\<close>



text \<open>
  Claim C8, as the sources have it. With the registry
  \<open>{ MessageToolbox: { configOverrides: { optionConfig: { menuItems: ["reply"] } } } }\<close>
  the menu of MessageToolbox holds exactly one option, built from the entry of the
  options table for \<open>reply\<close>, when that entry exists and is visible; otherwise no menu
  is rendered. No option of another item appears in either case.
\<close>

theorem toolbox_reply_only_menu:
  "MessageToolbox_menu
     [''MessageToolbox'' \<mapsto>
        \<lparr>styleOverrides = None, classNames = None, variantOverrides = None,
         configOverrides =
           Some \<lparr>optionConfig = Some \<lparr>surfaceItems = None, menuItems = Some [''reply'']\<rparr>\<rparr>\<rparr>]
     options builtin className style
   = Inr (case options ''reply'' of
            None \<Rightarrow> None
          | Some e \<Rightarrow>
              if visible e
              then Some [Some \<lparr>menu_id = id' e, action = onClick e,
                               menu_label = label e, icon = iconName e\<rparr>]
              else None)"
  by (simp add: MessageToolbox_menu_def useComponentOverrides_def toolbox_menuItems_def
      or_else_def menuOptions_def split: option.splits)

text \<open>
  Claim C8 as stated fails where the options table marks \<open>reply\<close> as not visible: the
  item is filtered out and no menu is rendered, although the registry lists it.
\<close>

theorem toolbox_reply_hidden_counterexample:
  "MessageToolbox_menu
     [''MessageToolbox'' \<mapsto>
        \<lparr>styleOverrides = None, classNames = None, variantOverrides = None,
         configOverrides =
           Some \<lparr>optionConfig = Some \<lparr>surfaceItems = None, menuItems = Some [''reply'']\<rparr>\<rparr>\<rparr>]
     [''reply'' \<mapsto> \<lparr>id' = ''reply'', onClick = (1::nat), label = ''Reply in thread'',
                     iconName = ''thread'', visible = False\<rparr>,
      ''pin'' \<mapsto> \<lparr>id' = ''pin'', onClick = 2, label = ''Pin'', iconName = ''pin'',
                   visible = True\<rparr>]
     \<lparr>surfaceItems = Some [''reaction''], menuItems = Some [''reply'', ''pin'']\<rparr> None None
   = Inr None"
  by (simp add: MessageToolbox_menu_def useComponentOverrides_def toolbox_menuItems_def
      or_else_def menuOptions_def)

text \<open>
  Claim C6, as the sources have it. MessageHeader's display-name variant is \<open>Normal\<close>
  whenever the variant tag is undefined or the empty string, also when that tag is what
  the resolver returns for \<open>MessageHeader\<close>. Message does not read the registry: it
  puts the literal \<open>default\<close> in place of its \<open>variantOverrides\<close> prop exactly when the
  call site leaves the prop undefined, and keeps every defined prop, the empty string too,
  as it is; a prop other than \<open>bubble\<close> renders as the missing prop does.
\<close>

theorem variant_literal_defaults:
  "(tag = None \<or> tag = Some [] \<longrightarrow>
      displayNameVariant tag = ''Normal'' \<and>
      (Option.bind (registry ''MessageHeader'') variantOverrides = tag
         \<longrightarrow> MessageHeader_displayNameVariant registry = ''Normal'')) \<and>
   Message_variantOverrides None = ''default'' \<and>
   Message_variantOverrides (Some v) = v \<and>
   (v \<noteq> ''bubble'' \<longrightarrow>
      Message st ubs msg sq ls nd (Some v) = Message st ubs msg sq ls nd None)"
  by (auto simp add: displayNameVariant_def MessageHeader_displayNameVariant_def
      useComponentOverrides_def Message_variantOverrides_def Message_def Let_def)

theorem variant_literal_defaults_witness:
  "displayNameVariant (Some []) = ''Normal'' \<and>
   Option.bind
     ([''MessageHeader'' \<mapsto> \<lparr>styleOverrides = None, classNames = Some [''mine''],
                              variantOverrides = Some [], configOverrides = None\<rparr>]
        ''MessageHeader'') variantOverrides = Some [] \<and>
   MessageHeader_displayNameVariant
     [''MessageHeader'' \<mapsto> \<lparr>styleOverrides = None, classNames = Some [''mine''],
                             variantOverrides = Some [], configOverrides = None\<rparr>] = ''Normal'' \<and>
   Message_variantOverrides None = ''default'' \<and>
   Message_variantOverrides (Some ''compact'') = ''compact'' \<and>
   ''compact'' \<noteq> ''bubble'' \<and>
   Message \<lparr>main = ''main''\<rparr>
     (\<lambda>b. \<lparr>name = Some ''bubble'', messageParent = Some ''bubble-parent''\<rparr>)
     \<lparr>u = \<lparr>username = ''alice''\<rparr>, t = None\<rparr> None None None (Some ''compact'')
   = Message \<lparr>main = ''main''\<rparr>
     (\<lambda>b. \<lparr>name = Some ''bubble'', messageParent = Some ''bubble-parent''\<rparr>)
     \<lparr>u = \<lparr>username = ''alice''\<rparr>, t = None\<rparr> None None None None"
  using variant_literal_defaults
    [of "Some []"
        "[''MessageHeader'' \<mapsto> \<lparr>styleOverrides = None, classNames = Some [''mine''],
                                 variantOverrides = Some [], configOverrides = None\<rparr>]"
        "''compact''"
        "\<lparr>main = ''main''\<rparr>"
        "\<lambda>b. \<lparr>name = Some ''bubble'', messageParent = Some ''bubble-parent''\<rparr>"
        "\<lparr>u = \<lparr>username = ''alice''\<rparr>, t = None\<rparr>" None None None]
  by simp

text \<open>
  Claim C6 as stated fails in Message for a tag that is falsy but present: handed the
  empty string, the component keeps it and does not use the literal \<open>default\<close>, while
  MessageHeader does replace the same tag by \<open>Normal\<close>.
\<close>

theorem Message_empty_tag_counterexample:
  "Message_variantOverrides (Some []) = [] \<and>
   Message_variantOverrides (Some []) \<noteq> ''default'' \<and>
   displayNameVariant (Some []) = ''Normal''"
  by (simp add: Message_variantOverrides_def displayNameVariant_def)

text \<open>
  Claim C2, as the sources have it. Message takes its layout variant from its own prop
  and never from the registry: with the prop unset the variant styles are the empty
  object and the outer box carries the plain style, and with the prop set the bubble
  styles are applied exactly when it is \<open>bubble\<close>.
\<close>

theorem Message_variant_from_prop:
  "variantStyles (Message st ubs msg sq ls nd None) = \<lparr>name = None, messageParent = None\<rparr> \<and>
   box_css (Message st ubs msg sq ls nd None) = main st \<and>
   variantStyles (Message st ubs msg sq ls nd (Some v)) =
     (if v = ''bubble'' then ubs (isMe msg) else \<lparr>name = None, messageParent = None\<rparr>)"
  by (simp add: Message_def Message_variantOverrides_def Let_def)

text \<open>
  Claim C2 as stated fails: with the registry \<open>{ Message: { variantOverrides: "bubble" } }\<close>
  the resolver does give \<open>bubble\<close> for \<open>Message\<close>, yet the component rendered without the
  prop applies no bubble styles.
\<close>

theorem Message_registry_bubble_counterexample:
  "variantOverrides
     (useComponentOverrides
        [''Message'' \<mapsto> \<lparr>styleOverrides = None, classNames = None,
                           variantOverrides = Some ''bubble'', configOverrides = None\<rparr>]
        ''Message'' None None) = Some ''bubble'' \<and>
   variantStyles
     (Message \<lparr>main = ''main''\<rparr>
        (\<lambda>b. \<lparr>name = Some ''bubble'', messageParent = Some ''bubble-parent''\<rparr>)
        \<lparr>u = \<lparr>username = ''alice''\<rparr>, t = None\<rparr> None None None None)
     = \<lparr>name = None, messageParent = None\<rparr> \<and>
   box_css
     (Message \<lparr>main = ''main''\<rparr>
        (\<lambda>b. \<lparr>name = Some ''bubble'', messageParent = Some ''bubble-parent''\<rparr>)
        \<lparr>u = \<lparr>username = ''alice''\<rparr>, t = None\<rparr> None None None None)
     = ''main''"
  by (simp add: useComponentOverrides_def Message_def Message_variantOverrides_def Let_def)

text \<open>
  Claim C10. In Message, \<open>isMe\<close> holds exactly when \<open>message.u.username\<close> equals the
  literal \<open>spiral_memory\<close>. In the bubble variant (the prop is \<open>bubble\<close> and the name of
  the bubble styles contains \<open>bubble\<close>) the header, rendered unless the message is
  sequential, is told to show the display name exactly when that comparison fails.
\<close>

theorem Message_isMe_and_bubble_header:
  "(isMe msg \<longleftrightarrow> username (u msg) = ''spiral_memory'') \<and>
   (name (ubs (isMe msg)) = Some n \<and> sublist ''bubble'' n \<longrightarrow>
      header (Message st ubs msg sq ls nd (Some ''bubble'')) =
        (if sq = Some True then None
         else Some \<lparr>header_message = msg,
                    showDisplayName = Some (username (u msg) \<noteq> ''spiral_memory'')\<rparr>))"
  by (cases sq) (auto simp add: isMe_def Message_def Message_variantOverrides_def Let_def)

theorem Message_isMe_and_bubble_header_witness:
  "name ((\<lambda>b. \<lparr>name = Some ''bubble'', messageParent = Some ''bubble-parent''\<rparr>)
           (isMe \<lparr>u = \<lparr>username = ''alice''\<rparr>, t = None\<rparr>)) = Some ''bubble'' \<and>
   sublist ''bubble'' ''bubble'' \<and>
   \<not> isMe \<lparr>u = \<lparr>username = ''alice''\<rparr>, t = None\<rparr> \<and>
   header
     (Message \<lparr>main = ''main''\<rparr>
        (\<lambda>b. \<lparr>name = Some ''bubble'', messageParent = Some ''bubble-parent''\<rparr>)
        \<lparr>u = \<lparr>username = ''alice''\<rparr>, t = None\<rparr> None None None (Some ''bubble''))
     = Some \<lparr>header_message = \<lparr>u = \<lparr>username = ''alice''\<rparr>, t = None\<rparr>,
             showDisplayName = Some True\<rparr>"
  using Message_isMe_and_bubble_header
    [of "\<lparr>u = \<lparr>username = ''alice''\<rparr>, t = None\<rparr>"
        "\<lambda>b. \<lparr>name = Some ''bubble'', messageParent = Some ''bubble-parent''\<rparr>"
        "''bubble''" "\<lparr>main = ''main''\<rparr>" None None None]
  by simp

end
